theory Spec2Isabelle
  imports Complex_Main "HOL-Library.AList" "HOL-Library.Multiset" "HOL-Library.Monad_Syntax"
begin

section \<open>Data model (shared/schema.ts)\<close>

text \<open>
  The three Postgres enums. The constructors stand for the string values
  \<^verbatim>\<open>'small' | 'medium' | 'large'\<close>, \<^verbatim>\<open>'requested' | 'accepted' | 'picked' | 'delivered'\<close>
  and \<^verbatim>\<open>'sender' | 'carrier' | 'both'\<close>; the \<open>_name\<close> functions give the strings back.
\<close>

datatype package_size = Small | Medium | Large

datatype delivery_status = Requested | Accepted | Picked | Delivered

datatype user_role = RoleSender | RoleCarrier | RoleBoth

fun package_size_name :: "package_size \<Rightarrow> string" where
  "package_size_name Small = ''small''"
| "package_size_name Medium = ''medium''"
| "package_size_name Large = ''large''"

fun delivery_status_name :: "delivery_status \<Rightarrow> string" where
  "delivery_status_name Requested = ''requested''"
| "delivery_status_name Accepted = ''accepted''"
| "delivery_status_name Picked = ''picked''"
| "delivery_status_name Delivered = ''delivered''"

fun user_role_name :: "user_role \<Rightarrow> string" where
  "user_role_name RoleSender = ''sender''"
| "user_role_name RoleCarrier = ''carrier''"
| "user_role_name RoleBoth = ''both''"

text \<open>
  Rows and insert types. \<open>InsertUser\<close>, \<open>InsertDelivery\<close> and \<open>InsertReview\<close> are the
  table rows without the omitted columns, so each row type extends its insert type.
  Identifiers are JavaScript numbers holding integers (\<open>int\<close>); a nullable column is an
  \<open>option\<close>. \<open>createdAt\<close> is kept as the epoch milliseconds that
  \<^verbatim>\<open>new Date(createdAt).getTime()\<close> reads back from the stored ISO string.
  The field \<open>id\<close> of each row is named after its table, and the \<open>rating\<close> of a review is
  \<open>reviewRating\<close>, to keep the field names apart.
\<close>

record insertUser =
  username :: string
  password :: string
  fullName :: string
  role :: "user_role option"

record user = insertUser +
  user_id :: int
  rating :: "int option"
  totalReviews :: "int option"

record insertDelivery =
  senderId :: int
  pickupLocation :: string
  dropLocation :: string
  packageSize :: package_size
  packageWeight :: rat
  description :: "string option"
  specialInstructions :: "string option"
  preferredDeliveryDate :: string
  preferredDeliveryTime :: string
  deliveryFee :: rat

record delivery = insertDelivery +
  delivery_id :: int
  carrierId :: "int option"
  status :: delivery_status
  createdAt :: int

record insertReview =
  deliveryId :: int
  reviewerId :: int
  revieweeId :: int
  reviewRating :: int
  comment :: "string option"

record review = insertReview +
  review_id :: int
  reviewCreatedAt :: int

section \<open>MemStorage (server/storage.ts)\<close>

text \<open>
  The three \<^verbatim>\<open>Map\<close>s are association lists in insertion order (the order
  \<^verbatim>\<open>Array.from(map.values())\<close> iterates in); \<^verbatim>\<open>map.get\<close> is \<^const>\<open>map_of\<close> and
  \<^verbatim>\<open>map.set\<close> is \<^const>\<open>AList.update\<close>, which overwrites in place or appends.
  The counters \<^verbatim>\<open>userId\<close>, \<^verbatim>\<open>deliveryId\<close>, \<^verbatim>\<open>reviewId\<close> carry the suffix \<open>Seq\<close>.
\<close>

record MemStorage =
  usersData :: "(int \<times> user) list"
  deliveriesData :: "(int \<times> delivery) list"
  reviewsData :: "(int \<times> review) list"
  userIdSeq :: int
  deliveryIdSeq :: int
  reviewIdSeq :: int

definition emptyStorage :: MemStorage where
  "emptyStorage = \<lparr>usersData = [], deliveriesData = [], reviewsData = [],
     userIdSeq = 1, deliveryIdSeq = 1, reviewIdSeq = 1\<rparr>"

definition getUser :: "MemStorage \<Rightarrow> int \<Rightarrow> user option" where
  "getUser s i = map_of (usersData s) i"

definition createUser :: "insertUser \<Rightarrow> MemStorage \<Rightarrow> user \<times> MemStorage" where
  "createUser iu s =
     (let i = userIdSeq s;
          u = \<lparr>username = username iu, password = password iu, fullName = fullName iu,
               role = role iu, user_id = i, rating = Some 0, totalReviews = Some 0\<rparr>
      in (u, s\<lparr>userIdSeq := i + 1, usersData := AList.update i u (usersData s)\<rparr>))"

definition getDeliveryById :: "MemStorage \<Rightarrow> int \<Rightarrow> delivery option" where
  "getDeliveryById s i = map_of (deliveriesData s) i"

text \<open>
  \<^verbatim>\<open>createDelivery\<close>: the spread of the insert object, then \<open>id\<close>, the status
  \<^verbatim>\<open>"requested"\<close> and the timestamp; no \<open>carrierId\<close> key is written. \<open>now\<close> is the clock.
\<close>

definition createDelivery :: "int \<Rightarrow> insertDelivery \<Rightarrow> MemStorage \<Rightarrow> delivery \<times> MemStorage" where
  "createDelivery now dl s =
     (let i = deliveryIdSeq s;
          d = \<lparr>senderId = senderId dl, pickupLocation = pickupLocation dl,
               dropLocation = dropLocation dl, packageSize = packageSize dl,
               packageWeight = packageWeight dl, description = description dl,
               specialInstructions = specialInstructions dl,
               preferredDeliveryDate = preferredDeliveryDate dl,
               preferredDeliveryTime = preferredDeliveryTime dl,
               deliveryFee = deliveryFee dl,
               delivery_id = i, carrierId = None, status = Requested, createdAt = now\<rparr>
      in (d, s\<lparr>deliveryIdSeq := i + 1, deliveriesData := AList.update i d (deliveriesData s)\<rparr>))"

text \<open>
  \<^verbatim>\<open>updateDeliveryStatus(id, status, carrierId?)\<close>: an unconditional overwrite of the
  status; \<^verbatim>\<open>...(carrierId && { carrierId })\<close> writes the carrier only when the argument
  is truthy (present and not 0).
\<close>

definition updateDeliveryStatus ::
  "int \<Rightarrow> delivery_status \<Rightarrow> int option \<Rightarrow> MemStorage \<Rightarrow> delivery option \<times> MemStorage" where
  "updateDeliveryStatus i st c s =
     (case map_of (deliveriesData s) i of
        None \<Rightarrow> (None, s)
      | Some d \<Rightarrow>
          (let d' = d\<lparr>status := st,
                      carrierId := (case c of
                                      None \<Rightarrow> carrierId d
                                    | Some a \<Rightarrow> if a \<noteq> 0 then Some a else carrierId d)\<rparr>
           in (Some d', s\<lparr>deliveriesData := AList.update i d' (deliveriesData s)\<rparr>)))"

text \<open>
  \<^verbatim>\<open>updateUserRating\<close>: \<^verbatim>\<open>Math.round(totalRating / userReviews.length)\<close>.
  \<^verbatim>\<open>Math.round\<close> rounds to the nearest integer and a tie towards \<open>+\<infinity>\<close>, that is
  \<open>\<lfloor>x + 1/2\<rfloor>\<close>; the quotient of the two integers is taken exactly.
\<close>

definition Math_round :: "rat \<Rightarrow> int" where
  "Math_round x = \<lfloor>x + 1 / 2\<rfloor>"

definition userReviews :: "MemStorage \<Rightarrow> int \<Rightarrow> review list" where
  "userReviews s u = filter (\<lambda>r. revieweeId r = u) (map snd (reviewsData s))"

definition updateUserRating :: "int \<Rightarrow> MemStorage \<Rightarrow> MemStorage" where
  "updateUserRating u s =
     (case map_of (usersData s) u of
        None \<Rightarrow> s
      | Some usr \<Rightarrow>
          (let rs = userReviews s u in
           if length rs = 0 then s
           else
             (let totalRating = foldl (\<lambda>sum r. sum + reviewRating r) 0 rs;
                  averageRating = Math_round (of_int totalRating / of_nat (length rs));
                  updatedUser = usr\<lparr>rating := Some averageRating,
                                     totalReviews := Some (int (length rs))\<rparr>
              in s\<lparr>usersData := AList.update u updatedUser (usersData s)\<rparr>)))"

definition createReview :: "int \<Rightarrow> insertReview \<Rightarrow> MemStorage \<Rightarrow> review \<times> MemStorage" where
  "createReview now rv s =
     (let i = reviewIdSeq s;
          r = \<lparr>deliveryId = deliveryId rv, reviewerId = reviewerId rv,
               revieweeId = revieweeId rv, reviewRating = reviewRating rv,
               comment = comment rv, review_id = i, reviewCreatedAt = now\<rparr>;
          s1 = s\<lparr>reviewIdSeq := i + 1, reviewsData := AList.update i r (reviewsData s)\<rparr>
      in (r, updateUserRating (revieweeId rv) s1))"

definition getReviewByDeliveryAndReviewer :: "MemStorage \<Rightarrow> int \<Rightarrow> int \<Rightarrow> review option" where
  "getReviewByDeliveryAndReviewer s d u =
     find (\<lambda>r. deliveryId r = d \<and> reviewerId r = u) (map snd (reviewsData s))"

text \<open>
  \<^verbatim>\<open>seedData\<close>, run by the constructor: three users, three deliveries, delivery 1
  accepted and picked by user 2, delivery 2 accepted by user 2, and one review of user 2
  by user 1 on delivery 1. Every call completes before the next one starts (no method of
  the class waits on anything). \<open>t1\<close>, \<open>t2\<close>, \<open>t3\<close>, \<open>t4\<close> are the clock readings of the
  three \<^verbatim>\<open>createDelivery\<close> calls and of \<^verbatim>\<open>createReview\<close>.
\<close>

definition seedData :: "int \<Rightarrow> int \<Rightarrow> int \<Rightarrow> int \<Rightarrow> MemStorage \<Rightarrow> MemStorage" where
  "seedData t1 t2 t3 t4 s0 =
     (let s1 = snd (createUser \<lparr>username = ''john_sender'', password = ''password123'',
                      fullName = ''John Sender'', role = Some RoleSender\<rparr> s0);
          s2 = snd (createUser \<lparr>username = ''alice_carrier'', password = ''password123'',
                      fullName = ''Alice Carrier'', role = Some RoleCarrier\<rparr> s1);
          s3 = snd (createUser \<lparr>username = ''bob_both'', password = ''password123'',
                      fullName = ''Bob Both'', role = Some RoleBoth\<rparr> s2);
          s4 = snd (createDelivery t1 \<lparr>senderId = 1, pickupLocation = ''Pune'',
                      dropLocation = ''Mumbai'', packageSize = Medium, packageWeight = 3500,
                      description = Some ''Electronics'',
                      specialInstructions = Some ''Handle with care'',
                      preferredDeliveryDate = ''2023-06-22'',
                      preferredDeliveryTime = ''Before 6:00 PM'', deliveryFee = 30000\<rparr> s3);
          s5 = snd (createDelivery t2 \<lparr>senderId = 3, pickupLocation = ''Mumbai'',
                      dropLocation = ''Bangalore'', packageSize = Small, packageWeight = 1000,
                      description = Some ''Clothes'', specialInstructions = None,
                      preferredDeliveryDate = ''2023-06-24'',
                      preferredDeliveryTime = ''Before 2:00 PM'', deliveryFee = 50000\<rparr> s4);
          s6 = snd (createDelivery t3 \<lparr>senderId = 1, pickupLocation = ''Bangalore'',
                      dropLocation = ''Pune'', packageSize = Large, packageWeight = 8000,
                      description = Some ''Books'', specialInstructions = None,
                      preferredDeliveryDate = ''2023-06-23'',
                      preferredDeliveryTime = ''Before 8:00 PM'', deliveryFee = 60000\<rparr> s5);
          s7 = snd (updateDeliveryStatus 1 Accepted (Some 2) s6);
          s8 = snd (updateDeliveryStatus 1 Picked None s7);
          s9 = snd (updateDeliveryStatus 2 Accepted (Some 2) s8)
      in snd (createReview t4 \<lparr>deliveryId = 1, reviewerId = 1, revieweeId = 2,
                 reviewRating = 5, comment = Some ''Excellent service!''\<rparr> s9))"

definition MemStorage_new :: "int \<Rightarrow> int \<Rightarrow> int \<Rightarrow> int \<Rightarrow> MemStorage" where
  "MemStorage_new t1 t2 t3 t4 = seedData t1 t2 t3 t4 emptyStorage"

section \<open>Request boundary (server/routes.ts)\<close>

text \<open>
  A handler either answers with an error or goes on. The error kinds are the spec's; each
  stands for these answers of the handlers:
  \<^item> \<open>Unauthorized\<close>: 401 of \<^verbatim>\<open>isAuthenticated\<close>;
  \<^item> \<open>ValidationError\<close>: 400 "Invalid delivery ID", "Invalid status", "Validation error"
    (a \<^verbatim>\<open>ZodError\<close>) and "Invalid reviewee";
  \<^item> \<open>NotFound\<close>: 404 "Delivery not found";
  \<^item> \<open>Forbidden\<close>: 403, with the reason: "Forbidden: Not associated with this delivery",
    "Only carriers can accept deliveries / mark as picked / mark as delivered",
    "Only participants in the delivery can leave reviews";
  \<^item> \<open>InvalidTransition\<close>: 400 "Can only accept deliveries with 'requested' status",
    "Can only mark as picked when delivery is accepted",
    "Can only mark as delivered when package is picked";
  \<^item> \<open>InvalidState\<close>: 400 "Can only review completed deliveries";
  \<^item> \<open>Conflict\<close>: 400 "You have already reviewed this delivery".

  The 500 of the \<^verbatim>\<open>catch\<close> blocks answers a failure of the storage; no method of
  \<open>MemStorage\<close> fails.
\<close>

datatype forbidden_reason = NotAssociated | OnlyCarriers | NotParticipant

datatype error =
    Unauthorized
  | ValidationError
  | NotFound
  | Forbidden forbidden_reason
  | InvalidTransition
  | InvalidState
  | Conflict

text \<open>
  A request body is a parsed JSON object: its keys with their values. A number is the
  exact value of its literal. \<open>JOther\<close> stands for arrays and nested objects, which no
  schema of this program accepts.
\<close>

datatype json = JNull | JBool bool | JNum rat | JStr string | JOther

type_synonym body = "(string \<times> json) list"

text \<open>\<^verbatim>\<open>{ ...req.body, key: value }\<close>: the later property wins.\<close>

definition withField :: "string \<Rightarrow> json \<Rightarrow> body \<Rightarrow> body" where
  "withField k v b = (k, v) # b"

subsection \<open>PATCH /api/deliveries/:id/status\<close>

text \<open>
  \<open>checkTransition\<close> is the handler from \<^verbatim>\<open>storage.getDeliveryById\<close> to the end of the
  status transition rules: it reads the delivery and answers with an error or lets the
  request through. \<open>transitionStatus\<close> then calls \<^verbatim>\<open>storage.updateDeliveryStatus\<close> with
  the actor as carrier when the target is \<^verbatim>\<open>'accepted'\<close>. There is no rule for the target
  \<^verbatim>\<open>'requested'\<close>.
\<close>

definition checkTransition :: "MemStorage \<Rightarrow> int \<Rightarrow> int \<Rightarrow> delivery_status \<Rightarrow> error option" where
  "checkTransition s i actor target =
     (case getDeliveryById s i of
        None \<Rightarrow> Some NotFound
      | Some d \<Rightarrow>
          (let isCarrier = (carrierId d = Some actor);
               isSender = (actor = senderId d)
           in if \<not> isCarrier \<and> \<not> isSender then Some (Forbidden NotAssociated)
              else if target = Accepted then
                (if status d \<noteq> Requested then Some InvalidTransition
                 else if \<not> isCarrier then Some (Forbidden OnlyCarriers)
                 else None)
              else if target = Picked then
                (if status d \<noteq> Accepted then Some InvalidTransition
                 else if \<not> isCarrier then Some (Forbidden OnlyCarriers)
                 else None)
              else if target = Delivered then
                (if status d \<noteq> Picked then Some InvalidTransition
                 else if \<not> isCarrier then Some (Forbidden OnlyCarriers)
                 else None)
              else None))"

definition transitionStatus ::
  "MemStorage \<Rightarrow> int \<Rightarrow> int \<Rightarrow> delivery_status \<Rightarrow> error + (delivery option \<times> MemStorage)" where
  "transitionStatus s i actor target =
     (case checkTransition s i actor target of
        Some e \<Rightarrow> Inl e
      | None \<Rightarrow>
          Inr (updateDeliveryStatus i target (if target = Accepted then Some actor else None) s))"

text \<open>
  The whole handler: \<open>user\<close> is the session's user id (\<open>None\<close>: not logged in), \<open>idParam\<close>
  the result of \<^verbatim>\<open>parseInt(req.params.id)\<close> (\<open>None\<close>: \<^verbatim>\<open>NaN\<close>), and the status is read
  from the body and has to be one of the four enum values.
\<close>

definition parseStatus :: "json option \<Rightarrow> delivery_status option" where
  "parseStatus v =
     (case v of
        Some (JStr x) \<Rightarrow>
          (if x = ''requested'' then Some Requested
           else if x = ''accepted'' then Some Accepted
           else if x = ''picked'' then Some Picked
           else if x = ''delivered'' then Some Delivered
           else None)
      | _ \<Rightarrow> None)"

definition patchDeliveryStatus ::
  "MemStorage \<Rightarrow> int option \<Rightarrow> int option \<Rightarrow> body \<Rightarrow> error + (delivery option \<times> MemStorage)" where
  "patchDeliveryStatus s user idParam b =
     (case user of
        None \<Rightarrow> Inl Unauthorized
      | Some actor \<Rightarrow>
          (case idParam of
             None \<Rightarrow> Inl ValidationError
           | Some i \<Rightarrow>
               (case parseStatus (map_of b ''status'') of
                  None \<Rightarrow> Inl ValidationError
                | Some target \<Rightarrow> transitionStatus s i actor target)))"

subsection \<open>Schemas (shared/schema.ts)\<close>

text \<open>
  The schemas are built by \<^verbatim>\<open>createInsertSchema\<close> from the table columns: an object
  schema that keeps the listed keys and drops every other key of its input; an integer
  column accepts a number with no fractional part inside the range of a 32-bit integer,
  a text column a string, and a nullable column may also be \<^verbatim>\<open>null\<close> or missing.
  \<^verbatim>\<open>createDeliverySchema\<close> replaces five of the fields. No schema puts any other range
  on the \<open>rating\<close> of a review.
\<close>

definition zInt :: "json option \<Rightarrow> int option" where
  "zInt v = (case v of
               Some (JNum q) \<Rightarrow>
                 if q = of_int \<lfloor>q\<rfloor> \<and> - 2147483648 \<le> \<lfloor>q\<rfloor> \<and> \<lfloor>q\<rfloor> \<le> 2147483647
                 then Some \<lfloor>q\<rfloor> else None
             | _ \<Rightarrow> None)"

definition zString :: "json option \<Rightarrow> string option" where
  "zString v = (case v of Some (JStr x) \<Rightarrow> Some x | _ \<Rightarrow> None)"

definition zStringMin1 :: "json option \<Rightarrow> string option" where
  "zStringMin1 v = (case v of
                      Some (JStr x) \<Rightarrow> if 1 \<le> length x then Some x else None
                    | _ \<Rightarrow> None)"

definition zNumberMin1 :: "json option \<Rightarrow> rat option" where
  "zNumberMin1 v = (case v of
                      Some (JNum q) \<Rightarrow> if 1 \<le> q then Some q else None
                    | _ \<Rightarrow> None)"

definition zNullableText :: "json option \<Rightarrow> string option option" where
  "zNullableText v = (case v of
                        None \<Rightarrow> Some None
                      | Some JNull \<Rightarrow> Some None
                      | Some (JStr x) \<Rightarrow> Some (Some x)
                      | _ \<Rightarrow> None)"

definition zPackageSize :: "json option \<Rightarrow> package_size option" where
  "zPackageSize v =
     (case v of
        Some (JStr x) \<Rightarrow>
          (if x = ''small'' then Some Small
           else if x = ''medium'' then Some Medium
           else if x = ''large'' then Some Large
           else None)
      | _ \<Rightarrow> None)"

text \<open>\<open>None\<close> is a thrown \<^verbatim>\<open>ZodError\<close>.\<close>

definition createDeliverySchema_parse :: "body \<Rightarrow> insertDelivery option" where
  "createDeliverySchema_parse b =
     do {
       sid \<leftarrow> zInt (map_of b ''senderId'');
       pl \<leftarrow> zStringMin1 (map_of b ''pickupLocation'');
       dl \<leftarrow> zStringMin1 (map_of b ''dropLocation'');
       ps \<leftarrow> zPackageSize (map_of b ''packageSize'');
       pw \<leftarrow> zNumberMin1 (map_of b ''packageWeight'');
       ds \<leftarrow> zNullableText (map_of b ''description'');
       si \<leftarrow> zNullableText (map_of b ''specialInstructions'');
       pd \<leftarrow> zString (map_of b ''preferredDeliveryDate'');
       pt \<leftarrow> zString (map_of b ''preferredDeliveryTime'');
       fee \<leftarrow> zNumberMin1 (map_of b ''deliveryFee'');
       Some \<lparr>senderId = sid, pickupLocation = pl, dropLocation = dl, packageSize = ps,
             packageWeight = pw, description = ds, specialInstructions = si,
             preferredDeliveryDate = pd, preferredDeliveryTime = pt, deliveryFee = fee\<rparr>
     }"

definition insertReviewSchema_parse :: "body \<Rightarrow> insertReview option" where
  "insertReviewSchema_parse b =
     do {
       did \<leftarrow> zInt (map_of b ''deliveryId'');
       rer \<leftarrow> zInt (map_of b ''reviewerId'');
       ree \<leftarrow> zInt (map_of b ''revieweeId'');
       rt \<leftarrow> zInt (map_of b ''rating'');
       cm \<leftarrow> zNullableText (map_of b ''comment'');
       Some \<lparr>deliveryId = did, reviewerId = rer, revieweeId = ree, reviewRating = rt,
             comment = cm\<rparr>
     }"

subsection \<open>POST /api/deliveries\<close>

definition postDelivery ::
  "MemStorage \<Rightarrow> int option \<Rightarrow> int \<Rightarrow> body \<Rightarrow> error + (delivery \<times> MemStorage)" where
  "postDelivery s user now b =
     (case user of
        None \<Rightarrow> Inl Unauthorized
      | Some actor \<Rightarrow>
          (case createDeliverySchema_parse (withField ''senderId'' (JNum (of_int actor)) b) of
             None \<Rightarrow> Inl ValidationError
           | Some deliveryData \<Rightarrow> Inr (createDelivery now deliveryData s)))"

subsection \<open>POST /api/reviews\<close>

text \<open>
  \<open>submitReview\<close> is the handler after the schema has accepted the body: the checks in
  the order of the source, then \<^verbatim>\<open>storage.createReview\<close>.
\<close>

definition submitReview ::
  "MemStorage \<Rightarrow> int \<Rightarrow> int \<Rightarrow> insertReview \<Rightarrow> error + (review \<times> MemStorage)" where
  "submitReview s actor now reviewData =
     (case getDeliveryById s (deliveryId reviewData) of
        None \<Rightarrow> Inl NotFound
      | Some d \<Rightarrow>
          if status d \<noteq> Delivered then Inl InvalidState
          else
            (let isCarrier = (carrierId d = Some actor);
                 isSender = (actor = senderId d)
             in if \<not> isCarrier \<and> \<not> isSender then Inl (Forbidden NotParticipant)
                else if Some (revieweeId reviewData) \<noteq>
                          (if isSender then carrierId d else Some (senderId d))
                     then Inl ValidationError
                else
                  (case getReviewByDeliveryAndReviewer s (deliveryId reviewData) actor of
                     Some existingReview \<Rightarrow> Inl Conflict
                   | None \<Rightarrow> Inr (createReview now reviewData s))))"

definition postReview ::
  "MemStorage \<Rightarrow> int option \<Rightarrow> int \<Rightarrow> body \<Rightarrow> error + (review \<times> MemStorage)" where
  "postReview s user now b =
     (case user of
        None \<Rightarrow> Inl Unauthorized
      | Some actor \<Rightarrow>
          (case insertReviewSchema_parse (withField ''reviewerId'' (JNum (of_int actor)) b) of
             None \<Rightarrow> Inl ValidationError
           | Some reviewData \<Rightarrow> submitReview s actor now reviewData))"

subsection \<open>GET /api/deliveries\<close>

text \<open>
  The four query parameters, each a string or missing. A value counts only when it is
  truthy, that is a non-empty string: the handler copies only such values into the filter
  object (\<open>queryFilters\<close>), and \<^verbatim>\<open>getDeliveriesWithFilters\<close> of either storage tests
  them the same way.
\<close>

record filters =
  statusFilter :: "string option"
  pickupLocationFilter :: "string option"
  dropLocationFilter :: "string option"
  packageSizeFilter :: "string option"

definition truthy :: "string option \<Rightarrow> bool" where
  "truthy v = (case v of None \<Rightarrow> False | Some x \<Rightarrow> x \<noteq> [])"

definition queryFilters :: "filters \<Rightarrow> filters" where
  "queryFilters q =
     \<lparr>statusFilter = (if truthy (statusFilter q) then statusFilter q else None),
      pickupLocationFilter = (if truthy (pickupLocationFilter q) then pickupLocationFilter q else None),
      dropLocationFilter = (if truthy (dropLocationFilter q) then dropLocationFilter q else None),
      packageSizeFilter = (if truthy (packageSizeFilter q) then packageSizeFilter q else None)\<rparr>"

text \<open>A listed delivery: the row, the object of its sender and, from \<open>MemStorage\<close>, of its carrier.\<close>

record deliveryWithUser = delivery +
  sender :: "body option"
  carrier :: "body option"

paragraph \<open>DatabaseStorage, the exported storage\<close>

text \<open>
  The tables \<^verbatim>\<open>users\<close>, \<^verbatim>\<open>deliveries\<close> and \<^verbatim>\<open>reviews\<close>. The rows of a table are listed
  in the order in which the database yields them to a query, which nothing fixes.
\<close>

record Database =
  users :: "user list"
  deliveries :: "delivery list"
  reviews :: "review list"

text \<open>
  The columns selected for the sender: \<^verbatim>\<open>id\<close>, \<^verbatim>\<open>username\<close>, \<^verbatim>\<open>fullName\<close>,
  \<^verbatim>\<open>rating\<close>, \<^verbatim>\<open>totalReviews\<close>.
\<close>

definition senderColumns :: "user \<Rightarrow> body" where
  "senderColumns u =
     [(''id'', JNum (of_int (user_id u))),
      (''username'', JStr (username u)),
      (''fullName'', JStr (fullName u)),
      (''rating'', (case rating u of None \<Rightarrow> JNull | Some r \<Rightarrow> JNum (of_int r))),
      (''totalReviews'', (case totalReviews u of None \<Rightarrow> JNull | Some n \<Rightarrow> JNum (of_int n)))]"

text \<open>The conditions pushed for the truthy filters, each an equality with a column.\<close>

definition conditions :: "filters \<Rightarrow> (delivery \<Rightarrow> bool) list" where
  "conditions f =
     (if truthy (statusFilter f)
      then [\<lambda>d. Some (delivery_status_name (status d)) = statusFilter f] else [])
     @ (if truthy (pickupLocationFilter f)
        then [\<lambda>d. Some (pickupLocation d) = pickupLocationFilter f] else [])
     @ (if truthy (dropLocationFilter f)
        then [\<lambda>d. Some (dropLocation d) = dropLocationFilter f] else [])
     @ (if truthy (packageSizeFilter f)
        then [\<lambda>d. Some (package_size_name (packageSize d)) = packageSizeFilter f] else [])"

text \<open>
  The query: \<^verbatim>\<open>deliveries\<close> left-joined with \<^verbatim>\<open>users\<close> on the sender (\<^verbatim>\<open>users.id\<close> is
  the primary key, so a delivery has the one matching user or none), restricted by the
  conjunction of the conditions when there is one, ordered by descending \<^verbatim>\<open>createdAt\<close>;
  rows of equal time stay in the order the database yielded them. Each result is the
  delivery with the selected columns of its sender (\<^verbatim>\<open>null\<close> when no user matched) and
  without a carrier.
\<close>

definition DatabaseStorage_getDeliveriesWithFilters ::
  "Database \<Rightarrow> filters \<Rightarrow> deliveryWithUser list" where
  "DatabaseStorage_getDeliveriesWithFilters db f =
     (let joined = map (\<lambda>d. (d, find (\<lambda>u. user_id u = senderId d) (users db))) (deliveries db);
          selected = (if length (conditions f) > 0
                      then filter (\<lambda>row. list_all (\<lambda>c. c (fst row)) (conditions f)) joined
                      else joined);
          results = sort_key (\<lambda>row. - createdAt (fst row)) selected
      in map (\<lambda>row. delivery.extend (fst row)
                      (deliveryWithUser.fields (map_option senderColumns (snd row)) None))
           results)"

text \<open>The handler, as wired: \<^verbatim>\<open>storage\<close> is \<^verbatim>\<open>new DatabaseStorage()\<close>.\<close>

definition listDeliveries :: "Database \<Rightarrow> filters \<Rightarrow> deliveryWithUser list" where
  "listDeliveries db q = DatabaseStorage_getDeliveriesWithFilters db (queryFilters q)"

paragraph \<open>MemStorage\<close>

text \<open>The object literal that replaces a user inside a listed delivery.\<close>

definition safeUser :: "user \<Rightarrow> body" where
  "safeUser u =
     [(''id'', JNum (of_int (user_id u))),
      (''username'', JStr (username u)),
      (''fullName'', JStr (fullName u)),
      (''rating'', (case rating u of None \<Rightarrow> JNull | Some r \<Rightarrow> JNum (of_int r))),
      (''totalReviews'', (case totalReviews u of None \<Rightarrow> JNull | Some n \<Rightarrow> JNum (of_int n))),
      (''role'', (case role u of None \<Rightarrow> JNull | Some r \<Rightarrow> JStr (user_role_name r)))]"

definition withUsers :: "MemStorage \<Rightarrow> delivery \<Rightarrow> deliveryWithUser" where
  "withUsers s d =
     (let sender = map_of (usersData s) (senderId d);
          carrier = (case carrierId d of
                       None \<Rightarrow> None
                     | Some c \<Rightarrow> if c \<noteq> 0 then map_of (usersData s) c else None)
      in delivery.extend d
           (deliveryWithUser.fields (map_option safeUser sender) (map_option safeUser carrier)))"

text \<open>
  The comparator \<^verbatim>\<open>dateB - dateA\<close> of a stable sort: descending creation time, equal
  times in their former order.
\<close>

definition getDeliveriesWithFilters :: "MemStorage \<Rightarrow> filters \<Rightarrow> deliveryWithUser list" where
  "getDeliveriesWithFilters s f =
     (let ds0 = map snd (deliveriesData s);
          ds1 = (if truthy (statusFilter f)
                 then filter (\<lambda>d. Some (delivery_status_name (status d)) = statusFilter f) ds0
                 else ds0);
          ds2 = (if truthy (pickupLocationFilter f)
                 then filter (\<lambda>d. Some (pickupLocation d) = pickupLocationFilter f) ds1
                 else ds1);
          ds3 = (if truthy (dropLocationFilter f)
                 then filter (\<lambda>d. Some (dropLocation d) = dropLocationFilter f) ds2
                 else ds2);
          ds4 = (if truthy (packageSizeFilter f)
                 then filter (\<lambda>d. Some (package_size_name (packageSize d)) = packageSizeFilter f) ds3
                 else ds3)
      in map (withUsers s) (sort_key (\<lambda>d. - createdAt d) ds4))"

text \<open>The handler over \<open>MemStorage\<close>, the storage that \<^verbatim>\<open>storage.ts\<close> leaves commented out.\<close>

definition listDeliveriesMem :: "MemStorage \<Rightarrow> filters \<Rightarrow> deliveryWithUser list" where
  "listDeliveriesMem s q = getDeliveriesWithFilters s (queryFilters q)"

section \<open>Executions\<close>

text \<open>
  The requests that change the store. \<open>Register\<close> is the registration of a user, which
  ends in \<^verbatim>\<open>storage.createUser\<close>; the other three are the handlers above, called by a
  logged-in user: the session resolves the actor to a stored user, and a request of
  anybody else is answered 401. A request that is answered with an error leaves the store
  as it was, since every handler returns before its first write.
\<close>

datatype request =
    Register insertUser
  | PostDelivery int int body
  | PatchStatus int "int option" body
  | PostReview int int body

definition session :: "MemStorage \<Rightarrow> int \<Rightarrow> int option" where
  "session s actor = (if getUser s actor = None then None else Some actor)"

fun perform :: "request \<Rightarrow> MemStorage \<Rightarrow> MemStorage" where
  "perform (Register iu) s = snd (createUser iu s)"
| "perform (PostDelivery actor now b) s =
     (case postDelivery s (session s actor) now b of Inl e \<Rightarrow> s | Inr r \<Rightarrow> snd r)"
| "perform (PatchStatus actor idParam b) s =
     (case patchDeliveryStatus s (session s actor) idParam b of Inl e \<Rightarrow> s | Inr r \<Rightarrow> snd r)"
| "perform (PostReview actor now b) s =
     (case postReview s (session s actor) now b of Inl e \<Rightarrow> s | Inr r \<Rightarrow> snd r)"


text \<open>
  The stores a server can be in when it serves its requests one after the other, each
  handler running to its answer before the next starts: it starts empty (a new database)
  or seeded (the constructor of \<open>MemStorage\<close>).
\<close>

inductive reachable :: "MemStorage \<Rightarrow> bool" where
  reachable_empty: "reachable emptyStorage"
| reachable_new: "reachable (MemStorage_new t1 t2 t3 t4)"
| reachable_perform: "reachable s \<Longrightarrow> reachable (perform rq s)"

text \<open>The seeded store of a server whose clock read 1, 2, 3, 4 during the seeding.\<close>

definition seeded :: MemStorage where
  "seeded = MemStorage_new 1 2 3 4"

subsection \<open>Two requests in flight\<close>

text \<open>
  The status handler waits twice: for \<^verbatim>\<open>storage.getDeliveryById\<close> and for
  \<^verbatim>\<open>storage.updateDeliveryStatus\<close>. Between the two, another request can be served.
  A handler in flight is \<open>Waiting\<close> (nothing read yet), \<open>Checked\<close> (the delivery it read
  passed the rules, the write is still to come) or \<open>Answered\<close>. A schedule says which of
  two handlers moves next (\<open>True\<close>: the first).
\<close>

datatype handler =
    Waiting int int delivery_status
  | Checked int int delivery_status
  | Answered "error + delivery option"

fun stepHandler :: "handler \<Rightarrow> MemStorage \<Rightarrow> handler \<times> MemStorage" where
  "stepHandler (Waiting i actor target) s =
     (case checkTransition s i actor target of
        Some e \<Rightarrow> (Answered (Inl e), s)
      | None \<Rightarrow> (Checked i actor target, s))"
| "stepHandler (Checked i actor target) s =
     (let r = updateDeliveryStatus i target (if target = Accepted then Some actor else None) s
      in (Answered (Inr (fst r)), snd r))"
| "stepHandler (Answered a) s = (Answered a, s)"

fun runSchedule :: "bool list \<Rightarrow> handler \<times> handler \<times> MemStorage \<Rightarrow> handler \<times> handler \<times> MemStorage" where
  "runSchedule [] c = c"
| "runSchedule (b # bs) (h1, h2, s) =
     (if b then (let r = stepHandler h1 s in runSchedule bs (fst r, h2, snd r))
      else (let r = stepHandler h2 s in runSchedule bs (h1, fst r, snd r)))"

text \<open>
  All the ways two handlers of two steps each can take turns, and whether a handler has
  answered with the updated delivery.
\<close>

definition allSchedules :: "bool list list" where
  "allSchedules =
     [[True, True, False, False], [True, False, True, False], [True, False, False, True],
      [False, True, True, False], [False, True, False, True], [False, False, True, True]]"

fun answeredOk :: "handler \<Rightarrow> bool" where
  "answeredOk (Answered (Inr (Some d))) = True"
| "answeredOk h = False"

text \<open>
  The review handler waits three times: for \<^verbatim>\<open>storage.getDeliveryById\<close>, for
  \<^verbatim>\<open>storage.getReviewByDeliveryAndReviewer\<close> and for \<^verbatim>\<open>storage.createReview\<close>. A handler
  in flight is \<open>ReviewWaiting\<close> (nothing read yet), \<open>DeliveryChecked\<close> (the delivery it read
  passed the checks), \<open>ReviewChecked\<close> (it found no earlier review, the insert is still to
  come) or \<open>ReviewAnswered\<close>.
\<close>

datatype reviewHandler =
    ReviewWaiting int int body
  | DeliveryChecked int int insertReview
  | ReviewChecked int insertReview
  | ReviewAnswered "error + review"

fun stepReview :: "reviewHandler \<Rightarrow> MemStorage \<Rightarrow> reviewHandler \<times> MemStorage" where
  "stepReview (ReviewWaiting actor now b) s =
     (case insertReviewSchema_parse (withField ''reviewerId'' (JNum (of_int actor)) b) of
        None \<Rightarrow> (ReviewAnswered (Inl ValidationError), s)
      | Some reviewData \<Rightarrow>
          (case getDeliveryById s (deliveryId reviewData) of
             None \<Rightarrow> (ReviewAnswered (Inl NotFound), s)
           | Some d \<Rightarrow>
               if status d \<noteq> Delivered then (ReviewAnswered (Inl InvalidState), s)
               else
                 (let isCarrier = (carrierId d = Some actor);
                      isSender = (actor = senderId d)
                  in if \<not> isCarrier \<and> \<not> isSender
                     then (ReviewAnswered (Inl (Forbidden NotParticipant)), s)
                     else if Some (revieweeId reviewData) \<noteq>
                               (if isSender then carrierId d else Some (senderId d))
                          then (ReviewAnswered (Inl ValidationError), s)
                     else (DeliveryChecked actor now reviewData, s))))"
| "stepReview (DeliveryChecked actor now reviewData) s =
     (case getReviewByDeliveryAndReviewer s (deliveryId reviewData) actor of
        Some existingReview \<Rightarrow> (ReviewAnswered (Inl Conflict), s)
      | None \<Rightarrow> (ReviewChecked now reviewData, s))"
| "stepReview (ReviewChecked now reviewData) s =
     (let r = createReview now reviewData s in (ReviewAnswered (Inr (fst r)), snd r))"
| "stepReview (ReviewAnswered a) s = (ReviewAnswered a, s)"

fun runReviewSchedule ::
  "bool list \<Rightarrow> reviewHandler \<times> reviewHandler \<times> MemStorage
     \<Rightarrow> reviewHandler \<times> reviewHandler \<times> MemStorage" where
  "runReviewSchedule [] c = c"
| "runReviewSchedule (b # bs) (h1, h2, s) =
     (if b then (let r = stepReview h1 s in runReviewSchedule bs (fst r, h2, snd r))
      else (let r = stepReview h2 s in runReviewSchedule bs (h1, fst r, snd r)))"


text \<open>The third delivery of the seeded store.\<close>

definition seededDelivery3 :: delivery where
  "seededDelivery3 =
     \<lparr>senderId = 1, pickupLocation = ''Bangalore'', dropLocation = ''Pune'',
      packageSize = Large, packageWeight = 8000, description = Some ''Books'',
      specialInstructions = None, preferredDeliveryDate = ''2023-06-23'',
      preferredDeliveryTime = ''Before 8:00 PM'', deliveryFee = 60000,
      delivery_id = 3, carrierId = None, status = Requested, createdAt = 3\<rparr>"

section \<open>Properties of the specification\<close>

text \<open>The carrier is unset exactly in the status \<open>requested\<close>.\<close>

definition carrierInvariant :: "MemStorage \<Rightarrow> bool" where
  "carrierInvariant s =
     list_all (\<lambda>d. (carrierId d = None) = (status d = Requested)) (map snd (deliveriesData s))"

text \<open>The stages of the lifecycle, in order.\<close>

fun stage :: "delivery_status \<Rightarrow> nat" where
  "stage Requested = 0"
| "stage Accepted = 1"
| "stage Picked = 2"
| "stage Delivered = 3"

fun isForbidden :: "error + 'a \<Rightarrow> bool" where
  "isForbidden (Inl (Forbidden r)) = True"
| "isForbidden x = False"

fun succeeds :: "error + 'a \<Rightarrow> bool" where
  "succeeds (Inr x) = True"
| "succeeds (Inl e) = False"









text \<open>
  The seeded store after user 2, the carrier of the picked delivery 1, has marked it as
  delivered.
\<close>

definition deliveredStore :: MemStorage where
  "deliveredStore = perform (PatchStatus 2 (Some 1) [(''status'', JStr ''delivered'')]) seeded"


text \<open>
  The deliveries a filter set asks for: each filter that is given (present and not empty)
  has to equal the field of the delivery.
\<close>

definition givenMatches :: "string option \<Rightarrow> string \<Rightarrow> bool" where
  "givenMatches f v = (if truthy f then Some v = f else True)"

definition matches :: "filters \<Rightarrow> delivery \<Rightarrow> bool" where
  "matches q d =
     (givenMatches (statusFilter q) (delivery_status_name (status d))
      \<and> givenMatches (pickupLocationFilter q) (pickupLocation d)
      \<and> givenMatches (dropLocationFilter q) (dropLocation d)
      \<and> givenMatches (packageSizeFilter q) (package_size_name (packageSize d)))"

text \<open>
  The public profile of the specification: identity, handle, name, rating, review count
  and role, under the keys of the program; no other key, so not the credential secret.
\<close>

definition publicProfile :: "user \<Rightarrow> string \<Rightarrow> json option" where
  "publicProfile u k =
     (if k = ''id'' then Some (JNum (of_int (user_id u)))
      else if k = ''username'' then Some (JStr (username u))
      else if k = ''fullName'' then Some (JStr (fullName u))
      else if k = ''rating'' then Some (case rating u of None \<Rightarrow> JNull | Some r \<Rightarrow> JNum (of_int r))
      else if k = ''totalReviews'' then
        Some (case totalReviews u of None \<Rightarrow> JNull | Some n \<Rightarrow> JNum (of_int n))
      else if k = ''role'' then
        Some (case role u of None \<Rightarrow> JNull | Some r \<Rightarrow> JStr (user_role_name r))
      else None)"


subsection \<open>Sample requests\<close>





text \<open>A query for the requested deliveries, with an empty drop location.\<close>

definition requestedOnly :: filters where
  "requestedOnly = \<lparr>statusFilter = Some ''requested'', pickupLocationFilter = None,
                    dropLocationFilter = Some [], packageSizeFilter = None\<rparr>"

text \<open>A body for a new delivery, and the same body claiming a status and a carrier.\<close>

definition plainBody :: body where
  "plainBody =
     [(''pickupLocation'', JStr ''Pune''), (''dropLocation'', JStr ''Mumbai''),
      (''packageSize'', JStr ''medium''), (''packageWeight'', JNum 3500),
      (''preferredDeliveryDate'', JStr ''2023-06-22''),
      (''preferredDeliveryTime'', JStr ''Before 6:00 PM''), (''deliveryFee'', JNum 30000)]"

definition claimingBody :: body where
  "claimingBody = withField ''status'' (JStr ''delivered'') (withField ''carrierId'' (JNum 2) plainBody)"


text \<open>A query without filters, and a database holding the rows of the seeded store.\<close>

definition noFilter :: filters where
  "noFilter = \<lparr>statusFilter = None, pickupLocationFilter = None,
               dropLocationFilter = None, packageSizeFilter = None\<rparr>"

definition seededDatabase :: Database where
  "seededDatabase = \<lparr>users = map snd (usersData seeded),
                      deliveries = map snd (deliveriesData seeded),
                      reviews = map snd (reviewsData seeded)\<rparr>"

section \<open>The delivery lifecycle\<close>

lemma transition_needs_recorded_carrier:
  assumes "transitionStatus s i actor target = Inr r" and "target \<noteq> Requested"
  shows "\<exists>d. getDeliveryById s i = Some d \<and> carrierId d = Some actor"
proof (cases "getDeliveryById s i")
  case None
  with assms show ?thesis
    by (simp add: transitionStatus_def checkTransition_def)
next
  case (Some d)
  with assms show ?thesis
    by (cases target)
       (auto simp: transitionStatus_def checkTransition_def Let_def split: if_splits)
qed

lemma accept_without_carrier_fails:
  assumes "getDeliveryById s i = Some d" and "carrierId d = None"
  shows "\<not> succeeds (transitionStatus s i actor Accepted)"
proof
  assume "succeeds (transitionStatus s i actor Accepted)"
  then obtain r where "transitionStatus s i actor Accepted = Inr r"
    by (cases "transitionStatus s i actor Accepted") auto
  from transition_needs_recorded_carrier [OF this] assms show False
    by auto
qed

lemma transition_one_stage_forward:
  assumes "transitionStatus s i actor target = Inr r"
    and "getDeliveryById s i = Some d" and "target \<noteq> Requested"
  shows "stage target = Suc (stage (status d))"
  using assms
  by (cases target; cases "status d")
     (auto simp: transitionStatus_def checkTransition_def Let_def split: if_splits)

text \<open>
  C1. A user who is not the sender of a delivery in status \<open>requested\<close> is expected to
  accept it and become its carrier. The handler answers 403 instead: on the seeded store,
  delivery 3 is requested by user 1 and has no carrier, and the accept request of the
  logged-in user 2 is refused as "not associated with this delivery".
\<close>

theorem accept_by_other_user_is_forbidden:
  "map_option (\<lambda>d. (status d, carrierId d, senderId d)) (getDeliveryById seeded 3)
     = Some (Requested, None, 1)
   \<and> session seeded 2 = Some 2
   \<and> patchDeliveryStatus seeded (session seeded 2) (Some 3) [(''status'', JStr ''accepted'')]
     = Inl (Forbidden NotAssociated)"
  by code_simp

text \<open>
  C9, as stated: the accept request of the sender fails with Forbidden for every
  delivery. It does not: delivery 2 of the seeded store is already accepted, and the
  request of its sender, user 3, fails with InvalidTransition, because the status is
  tested before the role.
\<close>

theorem sender_accept_not_always_forbidden:
  "map_option (\<lambda>d. (status d, carrierId d, senderId d)) (getDeliveryById seeded 2)
     = Some (Accepted, Some 2, 3)
   \<and> transitionStatus seeded 2 3 Accepted = Inl InvalidTransition
   \<and> \<not> isForbidden (transitionStatus seeded 2 3 Accepted)"
  by code_simp

text \<open>
  C9, amended: for every delivery whose recorded carrier is not its sender (so for every
  delivery without a carrier), the accept request of the sender fails and nothing is
  written: with Forbidden when the delivery is in status \<open>requested\<close>, with
  InvalidTransition in every other status.
\<close>

theorem sender_accept_fails:
  assumes "getDeliveryById s i = Some d" and "carrierId d \<noteq> Some (senderId d)"
  shows "transitionStatus s i (senderId d) Accepted =
           Inl (if status d = Requested then Forbidden OnlyCarriers else InvalidTransition)"
  using assms by (simp add: transitionStatus_def checkTransition_def)

theorem sender_accept_fails_witness:
  "getDeliveryById seeded 3 = Some seededDelivery3
   \<and> carrierId seededDelivery3 \<noteq> Some (senderId seededDelivery3)
   \<and> status seededDelivery3 = Requested
   \<and> transitionStatus seeded 3 (senderId seededDelivery3) Accepted = Inl (Forbidden OnlyCarriers)"
proof -
  have a: "getDeliveryById seeded 3 = Some seededDelivery3"
    by code_simp
  have b: "carrierId seededDelivery3 \<noteq> Some (senderId seededDelivery3)"
    by (simp add: seededDelivery3_def)
  have c: "status seededDelivery3 = Requested"
    by (simp add: seededDelivery3_def)
  from sender_accept_fails [OF a b] c a b show ?thesis
    by simp
qed

text \<open>
  C3. The status of a delivery is expected never to move backward. The three rules of
  the handler are as the claim says (\<open>transition_one_stage_forward\<close>), but there is no
  rule for the target \<open>requested\<close>, which passes the enum test of the handler: on the
  seeded store, the sender of the accepted delivery 2 sets it back to \<open>requested\<close>.
\<close>

theorem status_moves_backward:
  "map_option (\<lambda>d. (status d, senderId d)) (getDeliveryById seeded 2) = Some (Accepted, 3)
   \<and> succeeds (patchDeliveryStatus seeded (session seeded 3) (Some 2)
                 [(''status'', JStr ''requested'')])
   \<and> map_option status
        (getDeliveryById (perform (PatchStatus 3 (Some 2) [(''status'', JStr ''requested'')]) seeded) 2)
     = Some Requested"
  by code_simp

lemma list_all_update:
  assumes "list_all P (map snd al)" and "P v"
  shows "list_all P (map snd (AList.update k v al))"
  using assms by (induction al) auto

lemma carrierInvariant_createDelivery:
  assumes "carrierInvariant s"
  shows "carrierInvariant (snd (createDelivery now dl s))"
  using assms
  by (simp add: carrierInvariant_def createDelivery_def Let_def list_all_update)

lemma carrierInvariant_forward:
  assumes "carrierInvariant s" and "transitionStatus s i actor target = Inr r"
    and "target \<noteq> Requested"
  shows "carrierInvariant (snd r)"
proof -
  from transition_needs_recorded_carrier [OF assms(2,3)] obtain d where
    d: "map_of (deliveriesData s) i = Some d" and c: "carrierId d = Some actor"
    by (auto simp: getDeliveryById_def)
  from assms(2) have r: "r = updateDeliveryStatus i target (if target = Accepted then Some actor else None) s"
    by (auto simp: transitionStatus_def split: option.splits)
  show ?thesis
    using assms(1,3) d c
    by (simp add: r updateDeliveryStatus_def carrierInvariant_def Let_def list_all_update)
qed

text \<open>
  C2. Every delivery is expected to have no carrier exactly when it is in status
  \<open>requested\<close>, and every operation to keep it so. Creation and the three forward
  transitions keep it (\<open>carrierInvariant_createDelivery\<close>, \<open>carrierInvariant_forward\<close>).
  The transition to \<open>requested\<close> does not: the seeded store satisfies the invariant, and
  after the request of user 2, the carrier of the picked delivery 1, to set the status to
  \<open>requested\<close>, the delivery is requested and still has its carrier.
\<close>

theorem carrier_invariant_broken:
  "carrierInvariant seeded
   \<and> reachable seeded
   \<and> \<not> carrierInvariant (perform (PatchStatus 2 (Some 1) [(''status'', JStr ''requested'')]) seeded)
   \<and> map_option (\<lambda>d. (status d, carrierId d))
        (getDeliveryById (perform (PatchStatus 2 (Some 1) [(''status'', JStr ''requested'')]) seeded) 1)
     = Some (Requested, Some 2)"
proof (intro conjI)
  show "carrierInvariant seeded"
    by code_simp
  show "reachable seeded"
    by (simp add: seeded_def reachable_new)
  show "\<not> carrierInvariant (perform (PatchStatus 2 (Some 1) [(''status'', JStr ''requested'')]) seeded)"
    by code_simp
  show "map_option (\<lambda>d. (status d, carrierId d))
        (getDeliveryById (perform (PatchStatus 2 (Some 1) [(''status'', JStr ''requested'')]) seeded) 1)
     = Some (Requested, Some 2)"
    by code_simp
qed

text \<open>
  C7. Of two accept requests in flight for the same requested delivery, exactly one is
  expected to succeed and the other to fail with InvalidTransition, the write being
  conditional on the status. The handler reads, decides and then writes without a
  condition. For delivery 3 of the seeded store and the users 2 and 3, both requests are
  refused as "not associated" in every order of the steps, and the store stays as it was.
  Once user 2 has set delivery 2, which they carry, back to \<open>requested\<close>, two accept
  requests of user 2 both succeed when both read before either writes, and the second
  fails with InvalidTransition when they run one after the other.
\<close>

theorem concurrent_accepts_not_exclusive:
  "map (\<lambda>sch. runSchedule sch (Waiting 3 2 Accepted, Waiting 3 3 Accepted, seeded)) allSchedules
     = replicate 6 (Answered (Inl (Forbidden NotAssociated)),
                    Answered (Inl (Forbidden NotAssociated)), seeded)
   \<and> map_option (\<lambda>d. (status d, carrierId d))
        (getDeliveryById (perform (PatchStatus 2 (Some 2) [(''status'', JStr ''requested'')]) seeded) 2)
     = Some (Requested, Some 2)
   \<and> (case runSchedule [True, False, True, False]
              (Waiting 2 2 Accepted, Waiting 2 2 Accepted,
               perform (PatchStatus 2 (Some 2) [(''status'', JStr ''requested'')]) seeded) of
        (h1, h2, s') \<Rightarrow> answeredOk h1 \<and> answeredOk h2)
   \<and> (case runSchedule [True, True, False, False]
              (Waiting 2 2 Accepted, Waiting 2 2 Accepted,
               perform (PatchStatus 2 (Some 2) [(''status'', JStr ''requested'')]) seeded) of
        (h1, h2, s') \<Rightarrow> answeredOk h1 \<and> h2 = Answered (Inl InvalidTransition))"
  by code_simp

section \<open>The store invariant\<close>



lemma updateUserRating_other [simp]:
  "reviewsData (updateUserRating u s) = reviewsData s"
  "deliveriesData (updateUserRating u s) = deliveriesData s"
  "userIdSeq (updateUserRating u s) = userIdSeq s"
  "reviewIdSeq (updateUserRating u s) = reviewIdSeq s"
  "deliveryIdSeq (updateUserRating u s) = deliveryIdSeq s"
  by (simp_all add: updateUserRating_def Let_def split: option.splits)

lemma userReviews_updateUserRating [simp]:
  "userReviews (updateUserRating u s) v = userReviews s v"
  by (simp add: userReviews_def)






















section \<open>Reviews and ratings\<close>


lemma reviews_kept:
  "reviewsData (snd (createUser iu s)) = reviewsData s"
  "reviewsData (snd (createDelivery now dl s)) = reviewsData s"
  "reviewsData (snd (updateDeliveryStatus i st c s)) = reviewsData s"
  by (simp_all add: createUser_def createDelivery_def updateDeliveryStatus_def Let_def
      split: option.splits)







text \<open>Three steps of a review handler in a row are the handler.\<close>

lemma stepReview_thrice:
  "runReviewSchedule [True, True, True] (ReviewWaiting actor now b, h, s) =
     (ReviewAnswered (map_sum id fst (postReview s (Some actor) now b)), h,
      (case postReview s (Some actor) now b of Inl e \<Rightarrow> s | Inr r \<Rightarrow> snd r))"
  by (simp add: postReview_def submitReview_def Let_def split: option.splits)










text \<open>
  C6. A review whose rating is outside 1 to 5 is expected to fail with ValidationError
  and not to be stored. The schema of the handler only asks for a 32-bit integer: on the
  seeded store with delivery 1 delivered, the review of user 1 by user 2 with the rating
  6 is stored and becomes the rating of user 1, and a review with the rating 0 succeeds
  as well.
\<close>

theorem out_of_range_rating_accepted:
  "map_option status (getDeliveryById deliveredStore 1) = Some Delivered
   \<and> (case postReview deliveredStore (session deliveredStore 2) 5
             [(''deliveryId'', JNum 1), (''revieweeId'', JNum 1), (''rating'', JNum 6)] of
        Inl e \<Rightarrow> False
      | Inr (r, s') \<Rightarrow>
          reviewRating r = 6 \<and> map reviewRating (userReviews s' 1) = [6]
          \<and> map_option rating (getUser s' 1) = Some (Some 6))
   \<and> succeeds (postReview deliveredStore (session deliveredStore 2) 5
                 [(''deliveryId'', JNum 1), (''revieweeId'', JNum 1), (''rating'', JNum 0)])"
  by code_simp

section \<open>Listing deliveries\<close>

lemma truncate_withUsers: "delivery.truncate (withUsers s d) = d"
  by (simp add: withUsers_def delivery.truncate_def delivery.extend_def Let_def)

lemma withUsers_fields:
  "senderId (withUsers s d) = senderId d"
  "createdAt (withUsers s d) = createdAt d"
  "sender (withUsers s d) = map_option safeUser (getUser s (senderId d))"
  by (simp_all add: withUsers_def delivery.extend_def deliveryWithUser.fields_def Let_def
      getUser_def)

lemma filter_step:
  "(if truthy f then filter (\<lambda>d. Some (g d) = f) xs else xs) = filter (\<lambda>d. givenMatches f (g d)) xs"
  by (auto simp: givenMatches_def)

lemma givenMatches_route:
  "givenMatches (if truthy f then f else None) v = givenMatches f v"
  by (simp add: givenMatches_def truthy_def)

lemma getDeliveriesWithFilters_eq:
  "getDeliveriesWithFilters s f =
     map (withUsers s) (sort_key (\<lambda>d. - createdAt d) (filter (matches f) (map snd (deliveriesData s))))"
proof -
  have "filter (\<lambda>d. givenMatches (packageSizeFilter f) (package_size_name (packageSize d)))
          (filter (\<lambda>d. givenMatches (dropLocationFilter f) (dropLocation d))
            (filter (\<lambda>d. givenMatches (pickupLocationFilter f) (pickupLocation d))
              (filter (\<lambda>d. givenMatches (statusFilter f) (delivery_status_name (status d))) xs)))
        = filter (matches f) xs" for xs :: "delivery list"
    by (induction xs) (simp_all add: matches_def)
  then show ?thesis
    unfolding getDeliveriesWithFilters_def Let_def filter_step by (simp only:)
qed

lemma givenMatches_queryFilters: "matches (queryFilters q) = matches q"
  by (rule ext) (simp add: matches_def queryFilters_def givenMatches_route)

lemma listDeliveriesMem_eq:
  "listDeliveriesMem s q =
     map (withUsers s) (sort_key (\<lambda>d. - createdAt d) (filter (matches q) (map snd (deliveriesData s))))"
  by (simp add: listDeliveriesMem_def getDeliveriesWithFilters_eq givenMatches_queryFilters)

lemma conditions_matches: "list_all (\<lambda>c. c d) (conditions f) = matches f d"
  by (simp add: conditions_def matches_def givenMatches_def)

lemma selected_rows:
  "(if length (conditions f) > 0
    then filter (\<lambda>row. list_all (\<lambda>c. c (fst row)) (conditions f)) joined
    else joined) = filter (\<lambda>row. matches f (fst row)) joined"
proof (cases "conditions f")
  case Nil
  then have "matches f d" for d
    using conditions_matches [of d f] by simp
  with Nil show ?thesis
    by simp
next
  case (Cons c cs)
  then have "length (conditions f) > 0"
    by simp
  then show ?thesis
    by (simp only: conditions_matches if_True)
qed

lemma DatabaseStorage_getDeliveriesWithFilters_eq:
  "DatabaseStorage_getDeliveriesWithFilters db f =
     map (\<lambda>row. delivery.extend (fst row)
                  (deliveryWithUser.fields (map_option senderColumns (snd row)) None))
       (sort_key (\<lambda>row. - createdAt (fst row))
          (filter (\<lambda>row. matches f (fst row))
             (map (\<lambda>d. (d, find (\<lambda>u. user_id u = senderId d) (users db))) (deliveries db))))"
  unfolding DatabaseStorage_getDeliveriesWithFilters_def Let_def selected_rows by (rule refl)

lemma listDeliveries_eq:
  "listDeliveries db q =
     map (\<lambda>row. delivery.extend (fst row)
                  (deliveryWithUser.fields (map_option senderColumns (snd row)) None))
       (sort_key (\<lambda>row. - createdAt (fst row))
          (filter (\<lambda>row. matches q (fst row))
             (map (\<lambda>d. (d, find (\<lambda>u. user_id u = senderId d) (users db))) (deliveries db))))"
  by (simp add: listDeliveries_def DatabaseStorage_getDeliveriesWithFilters_eq
      givenMatches_queryFilters)

lemma row_fields:
  "delivery.truncate (delivery.extend d (deliveryWithUser.fields sn ca)) = d"
  "senderId (delivery.extend d (deliveryWithUser.fields sn ca)) = senderId d"
  "createdAt (delivery.extend d (deliveryWithUser.fields sn ca)) = createdAt d"
  "sender (delivery.extend d (deliveryWithUser.fields sn ca)) = sn"
  "carrier (delivery.extend d (deliveryWithUser.fields sn ca)) = ca"
  by (simp_all add: delivery.truncate_def delivery.extend_def deliveryWithUser.fields_def)

lemma listDeliveries_rows:
  "mset (map delivery.truncate (listDeliveries db q)) = mset (filter (matches q) (deliveries db))"
  "sorted_wrt (\<lambda>a b. createdAt b \<le> createdAt a) (listDeliveries db q)"
proof -
  let ?joined = "map (\<lambda>d. (d, find (\<lambda>u. user_id u = senderId d) (users db))) (deliveries db)"
  let ?rows = "sort_key (\<lambda>row. - createdAt (fst row)) (filter (\<lambda>row. matches q (fst row)) ?joined)"
  have "map delivery.truncate (listDeliveries db q) = map fst ?rows"
    by (simp add: listDeliveries_eq row_fields comp_def)
  moreover have "mset (map fst ?rows) = mset (map fst (filter (\<lambda>row. matches q (fst row)) ?joined))"
    by (simp only: mset_map mset_sort)
  moreover have "map fst (filter (\<lambda>row. matches q (fst row)) ?joined) = filter (matches q) (deliveries db)"
    by (simp add: filter_map comp_def)
  ultimately show "mset (map delivery.truncate (listDeliveries db q))
      = mset (filter (matches q) (deliveries db))"
    by simp
  have "sorted (map (\<lambda>row. - createdAt (fst row)) ?rows)"
    by (rule sorted_sort_key)
  then have "sorted_wrt (\<lambda>a b. createdAt (fst b) \<le> createdAt (fst a)) ?rows"
    by (simp add: sorted_wrt_map)
  then show "sorted_wrt (\<lambda>a b. createdAt b \<le> createdAt a) (listDeliveries db q)"
    by (simp add: listDeliveries_eq sorted_wrt_map row_fields)
qed

lemma listDeliveries_sender:
  assumes "x \<in> set (listDeliveries db q)"
  shows "sender x = map_option senderColumns (find (\<lambda>u. user_id u = senderId x) (users db))"
    and "carrier x = None"
  using assms by (auto simp: listDeliveries_eq row_fields)

lemma safeUser_public:
  "map fst (safeUser u) = [''id'', ''username'', ''fullName'', ''rating'', ''totalReviews'', ''role'']"
  "map_of (safeUser u) k = publicProfile u k"
  "safeUser (u\<lparr>password := p\<rparr>) = safeUser u"
  by (simp_all add: safeUser_def publicProfile_def)

lemma senderColumns_public:
  "map fst (senderColumns u) = [''id'', ''username'', ''fullName'', ''rating'', ''totalReviews'']"
  "map_of (senderColumns u) k = (if k = ''role'' then None else publicProfile u k)"
  "senderColumns (u\<lparr>password := p\<rparr>) = senderColumns u"
  by (simp_all add: senderColumns_def publicProfile_def)

text \<open>
  C8. For every filter set, the listing holds exactly the deliveries that match every
  given filter (all of them when none is given; a filter is given when its value is a
  non-empty string), newest first, from the database as from \<open>MemStorage\<close>. The sender
  inside a result is the object of the user whose id is the sender of the delivery: from
  the database its columns \<open>id\<close>, \<open>username\<close>, \<open>fullName\<close>, \<open>rating\<close>, \<open>totalReviews\<close>,
  from \<open>MemStorage\<close> these and \<open>role\<close>. Every entry holds the value of that user's public
  profile, there is no other key, and the object does not depend on the password.
\<close>

theorem listing_is_filtered_sorted_and_safe:
  "mset (map delivery.truncate (listDeliveries db q)) = mset (filter (matches q) (deliveries db))
   \<and> sorted_wrt (\<lambda>a b. createdAt b \<le> createdAt a) (listDeliveries db q)
   \<and> (\<forall>x \<in> set (listDeliveries db q).
         sender x = map_option senderColumns (find (\<lambda>u. user_id u = senderId x) (users db))
         \<and> (\<forall>obj. sender x = Some obj \<longrightarrow> map_of obj ''id'' = Some (JNum (of_int (senderId x)))))
   \<and> (\<forall>u. map fst (senderColumns u) =
          [''id'', ''username'', ''fullName'', ''rating'', ''totalReviews''])
   \<and> (\<forall>u k. map_of (senderColumns u) k = (if k = ''role'' then None else publicProfile u k))
   \<and> (\<forall>u p. senderColumns (u\<lparr>password := p\<rparr>) = senderColumns u)
   \<and> map delivery.truncate (listDeliveriesMem s q) =
       sort_key (\<lambda>d. - createdAt d) (filter (matches q) (map snd (deliveriesData s)))
   \<and> mset (map delivery.truncate (listDeliveriesMem s q)) =
       mset (filter (matches q) (map snd (deliveriesData s)))
   \<and> sorted_wrt (\<lambda>a b. createdAt b \<le> createdAt a) (listDeliveriesMem s q)
   \<and> (\<forall>x \<in> set (listDeliveriesMem s q). sender x = map_option safeUser (getUser s (senderId x)))
   \<and> (\<forall>u. map fst (safeUser u) =
          [''id'', ''username'', ''fullName'', ''rating'', ''totalReviews'', ''role''])
   \<and> (\<forall>u k. map_of (safeUser u) k = publicProfile u k)
   \<and> (\<forall>u p. safeUser (u\<lparr>password := p\<rparr>) = safeUser u)"
proof -
  let ?ds = "sort_key (\<lambda>d. - createdAt d) (filter (matches q) (map snd (deliveriesData s)))"
  have own_id: "map_of obj ''id'' = Some (JNum (of_int (senderId x)))"
    if "x \<in> set (listDeliveries db q)" and "sender x = Some obj" for x obj
  proof -
    from that listDeliveries_sender(1) [OF that(1)] obtain u where
      u: "find (\<lambda>u. user_id u = senderId x) (users db) = Some u" and obj: "obj = senderColumns u"
      by auto
    from u have "user_id u = senderId x"
      by (auto simp: find_Some_iff)
    with obj show ?thesis
      by (simp add: senderColumns_def)
  qed
  have eq: "map delivery.truncate (listDeliveriesMem s q) = ?ds"
    by (simp add: listDeliveriesMem_eq truncate_withUsers comp_def)
  have mem_mset: "mset (map delivery.truncate (listDeliveriesMem s q)) =
       mset (filter (matches q) (map snd (deliveriesData s)))"
    by (simp only: eq mset_sort)
  have "sorted (map (\<lambda>d. - createdAt d) ?ds)"
    by (rule sorted_sort_key)
  then have "sorted_wrt (\<lambda>a b. createdAt b \<le> createdAt a) ?ds"
    by (simp add: sorted_wrt_map)
  then have mem_sorted: "sorted_wrt (\<lambda>a b. createdAt b \<le> createdAt a) (listDeliveriesMem s q)"
    by (simp add: listDeliveriesMem_eq sorted_wrt_map withUsers_fields)
  have mem_sender: "sender x = map_option safeUser (getUser s (senderId x))"
    if "x \<in> set (listDeliveriesMem s q)" for x
    using that by (auto simp: listDeliveriesMem_eq withUsers_fields)
  show ?thesis
    using listDeliveries_rows [of db q] listDeliveries_sender(1) [of _ db q] own_id
      eq mem_mset mem_sorted mem_sender
    by (intro conjI allI ballI impI senderColumns_public safeUser_public) auto
qed

theorem listing_witness:
  "mset (map delivery.truncate (listDeliveries seededDatabase requestedOnly)) = mset [seededDelivery3]
   \<and> map delivery_id (listDeliveries seededDatabase noFilter) = [3, 2, 1]
   \<and> map sender (listDeliveries seededDatabase noFilter) =
       [Some [(''id'', JNum 1), (''username'', JStr ''john_sender''),
              (''fullName'', JStr ''John Sender''), (''rating'', JNum 0),
              (''totalReviews'', JNum 0)],
        Some [(''id'', JNum 3), (''username'', JStr ''bob_both''),
              (''fullName'', JStr ''Bob Both''), (''rating'', JNum 0),
              (''totalReviews'', JNum 0)],
        Some [(''id'', JNum 1), (''username'', JStr ''john_sender''),
              (''fullName'', JStr ''John Sender''), (''rating'', JNum 0),
              (''totalReviews'', JNum 0)]]
   \<and> map delivery.truncate (listDeliveriesMem seeded requestedOnly) = [seededDelivery3]
   \<and> map delivery_id (listDeliveriesMem seeded noFilter) = [3, 2, 1]
   \<and> map sender (listDeliveriesMem seeded noFilter) =
       [Some [(''id'', JNum 1), (''username'', JStr ''john_sender''),
              (''fullName'', JStr ''John Sender''), (''rating'', JNum 0),
              (''totalReviews'', JNum 0), (''role'', JStr ''sender'')],
        Some [(''id'', JNum 3), (''username'', JStr ''bob_both''),
              (''fullName'', JStr ''Bob Both''), (''rating'', JNum 0),
              (''totalReviews'', JNum 0), (''role'', JStr ''both'')],
        Some [(''id'', JNum 1), (''username'', JStr ''john_sender''),
              (''fullName'', JStr ''John Sender''), (''rating'', JNum 0),
              (''totalReviews'', JNum 0), (''role'', JStr ''sender'')]]"
proof -
  note listing = listing_is_filtered_sorted_and_safe [of seededDatabase requestedOnly seeded]
  have "filter (matches requestedOnly) (deliveries seededDatabase) = [seededDelivery3]"
    by code_simp
  with listing
  have db: "mset (map delivery.truncate (listDeliveries seededDatabase requestedOnly)) = mset [seededDelivery3]"
    by simp
  have "sort_key (\<lambda>d. - createdAt d) (filter (matches requestedOnly) (map snd (deliveriesData seeded)))
      = [seededDelivery3]"
    by code_simp
  with listing
  have mem: "map delivery.truncate (listDeliveriesMem seeded requestedOnly) = [seededDelivery3]"
    by simp
  have "map delivery_id (listDeliveries seededDatabase noFilter) = [3, 2, 1]"
    by code_simp
  moreover have "map sender (listDeliveries seededDatabase noFilter) =
       [Some [(''id'', JNum 1), (''username'', JStr ''john_sender''),
              (''fullName'', JStr ''John Sender''), (''rating'', JNum 0),
              (''totalReviews'', JNum 0)],
        Some [(''id'', JNum 3), (''username'', JStr ''bob_both''),
              (''fullName'', JStr ''Bob Both''), (''rating'', JNum 0),
              (''totalReviews'', JNum 0)],
        Some [(''id'', JNum 1), (''username'', JStr ''john_sender''),
              (''fullName'', JStr ''John Sender''), (''rating'', JNum 0),
              (''totalReviews'', JNum 0)]]"
    by code_simp
  moreover have "map delivery_id (listDeliveriesMem seeded noFilter) = [3, 2, 1]"
    by code_simp
  moreover have "map sender (listDeliveriesMem seeded noFilter) =
       [Some [(''id'', JNum 1), (''username'', JStr ''john_sender''),
              (''fullName'', JStr ''John Sender''), (''rating'', JNum 0),
              (''totalReviews'', JNum 0), (''role'', JStr ''sender'')],
        Some [(''id'', JNum 3), (''username'', JStr ''bob_both''),
              (''fullName'', JStr ''Bob Both''), (''rating'', JNum 0),
              (''totalReviews'', JNum 0), (''role'', JStr ''both'')],
        Some [(''id'', JNum 1), (''username'', JStr ''john_sender''),
              (''fullName'', JStr ''John Sender''), (''rating'', JNum 0),
              (''totalReviews'', JNum 0), (''role'', JStr ''sender'')]]"
    by code_simp
  ultimately show ?thesis
    using db mem by (intro conjI)
qed

section \<open>Creating a delivery\<close>

lemma map_of_withField: "map_of (withField k v b) k' = (if k' = k then Some v else map_of b k')"
  by (simp add: withField_def)

lemma createDelivery_result:
  assumes "createDelivery now dl s = (d, s')"
  shows "status d = Requested" and "carrierId d = None"
    and "getDeliveryById s' (delivery_id d) = Some d"
  using assms
  by (auto simp: createDelivery_def Let_def getDeliveryById_def update_conv')

text \<open>
  C10. A request body may carry its own \<open>status\<close> and \<open>carrierId\<close>: the handler answers
  as it does for the body without them, and the delivery it creates and stores has the
  status \<open>requested\<close> and no carrier.
\<close>

theorem created_delivery_is_requested:
  assumes "\<forall>k. k \<noteq> ''status'' \<and> k \<noteq> ''carrierId'' \<longrightarrow> map_of b' k = map_of b k"
  shows "postDelivery s user now b' = postDelivery s user now b
       \<and> (\<forall>d s'. postDelivery s user now b' = Inr (d, s') \<longrightarrow>
            status d = Requested \<and> carrierId d = None
            \<and> getDeliveryById s' (delivery_id d) = Some d)"
proof -
  have "createDeliverySchema_parse (withField ''senderId'' v b')
      = createDeliverySchema_parse (withField ''senderId'' v b)" for v
    using assms by (simp add: createDeliverySchema_parse_def map_of_withField)
  then have same: "postDelivery s user now b' = postDelivery s user now b"
    by (simp add: postDelivery_def split: option.splits)
  have "status d = Requested \<and> carrierId d = None \<and> getDeliveryById s' (delivery_id d) = Some d"
    if "postDelivery s user now b' = Inr (d, s')" for d s'
  proof -
    from that obtain dl where "createDelivery now dl s = (d, s')"
      by (auto simp: postDelivery_def split: option.splits)
    from createDelivery_result [OF this] show ?thesis
      by simp
  qed
  with same show ?thesis
    by blast
qed

theorem created_delivery_is_requested_witness:
  "postDelivery seeded (Some 1) 5 claimingBody = postDelivery seeded (Some 1) 5 plainBody
   \<and> (case postDelivery seeded (Some 1) 5 claimingBody of
        Inl e \<Rightarrow> False
      | Inr (d, s') \<Rightarrow>
          status d = Requested \<and> carrierId d = None
          \<and> getDeliveryById s' (delivery_id d) = Some d)"
proof -
  have same: "\<forall>k. k \<noteq> ''status'' \<and> k \<noteq> ''carrierId'' \<longrightarrow> map_of claimingBody k = map_of plainBody k"
    by (simp add: claimingBody_def map_of_withField)
  have "succeeds (postDelivery seeded (Some 1) 5 claimingBody)"
    by code_simp
  then obtain d s' where ok: "postDelivery seeded (Some 1) 5 claimingBody = Inr (d, s')"
    by (cases "postDelivery seeded (Some 1) 5 claimingBody") auto
  note requested = created_delivery_is_requested [OF same, of seeded "Some 1" 5]
  from requested have eq: "postDelivery seeded (Some 1) 5 claimingBody = postDelivery seeded (Some 1) 5 plainBody"
    by (rule conjunct1)
  from requested ok
  have "status d = Requested \<and> carrierId d = None \<and> getDeliveryById s' (delivery_id d) = Some d"
    by blast
  then have "case postDelivery seeded (Some 1) 5 claimingBody of
        Inl e \<Rightarrow> False
      | Inr (d, s') \<Rightarrow>
          status d = Requested \<and> carrierId d = None
          \<and> getDeliveryById s' (delivery_id d) = Some d"
    unfolding ok by simp
  with eq show ?thesis
    by (rule conjI)
qed

end
